theory Spec2Isabelle
  imports Complex_Main "HOL-Library.Log_Nat"
begin

section \<open>Python values\<close>

text \<open>
  The views receive their arguments from a decoded JSON body (\<open>request.data\<close>) or from
  \<open>json.loads\<close> on the language service's answer, so an action, a value or a device name
  is any JSON value. A \<open>str\<close> is modelled as the list of its code points, restricted to
  U+0000..U+00FF. A finite \<open>float\<close> is the rational number it denotes; negative zero and the
  three special values are separate constructors.
\<close>

datatype pyfloat = Finite rat | NegZero | PosInf | NegInf | NaN

datatype pyval =
    PNone
  | PBool bool
  | PInt int
  | PFloat pyfloat
  | PStr string
  | PList "pyval list"
  | PDict "(string \<times> pyval) list"

datatype py_error =
    ValueError
  | TypeError
  | OverflowError
  | JSONDecodeError
  | IntegrityError
  | Http404
  | ServiceError

text \<open>A call either returns or raises.\<close>

datatype 'a outcome = Returned 'a | Raised py_error

subsection \<open>What the program takes from outside the repository\<close>

text \<open>
  The interpreter's builtins on strings and floats, the \<open>json\<close> module, the process
  environment and the language service are not code of this repository. They are
  parameters of the model:
  \<^item> \<open>float_of_str s\<close> is \<open>float(s)\<close> on a \<open>str\<close>, \<open>None\<close> where it raises \<open>ValueError\<close>;
  \<^item> \<open>str_of_float\<close> is \<open>str\<close> on a \<open>float\<close>, \<open>str_of_container\<close> is \<open>str\<close> on a list or dict;
  \<^item> \<open>json_loads s\<close> is \<open>json.loads(s)\<close> on a text that begins with a brace: the items of
    the dict it returns, \<open>None\<close> where it raises;
  \<^item> \<open>name_iexact a b\<close> is the database's case-insensitive equality behind the lookup
    \<open>name__iexact\<close>;
  \<^item> \<open>GEMINI_API_KEY\<close> is the environment variable read at import time;
  \<^item> \<open>generate_content p\<close> is the text of the service's answer to the prompt \<open>p\<close>
    (\<open>model.generate_content(p).text\<close>), or the exception the call raises.
\<close>

record env =
  float_of_str :: "string \<Rightarrow> pyfloat option"
  str_of_float :: "pyfloat \<Rightarrow> string"
  str_of_container :: "pyval \<Rightarrow> string"
  json_loads :: "string \<Rightarrow> (string \<times> pyval) list option"
  name_iexact :: "string \<Rightarrow> string \<Rightarrow> bool"
  GEMINI_API_KEY :: "string option"
  generate_content :: "string \<Rightarrow> py_error + string"

subsection \<open>Strings\<close>

text \<open>\<open>str.isspace\<close> on one code point below 256; \<open>str.strip\<close> and the pattern \<open>\s\<close> use it.\<close>

definition is_space :: "char \<Rightarrow> bool" where
  "is_space c =
     (let n = (of_char c :: nat)
      in (9 \<le> n \<and> n \<le> 13) \<or> (28 \<le> n \<and> n \<le> 32) \<or> n = 133 \<or> n = 160)"

definition lstrip :: "string \<Rightarrow> string" where
  "lstrip s = dropWhile is_space s"

definition rstrip :: "string \<Rightarrow> string" where
  "rstrip s = rev (dropWhile is_space (rev s))"

definition strip :: "string \<Rightarrow> string" where
  "strip s = rstrip (lstrip s)"

text \<open>\<open>str.lower\<close> below U+0100: the ASCII capitals and the Latin-1 capitals except U+00D7.\<close>

definition lower_char :: "char \<Rightarrow> char" where
  "lower_char c =
     (let n = (of_char c :: nat)
      in if (65 \<le> n \<and> n \<le> 90) \<or> (192 \<le> n \<and> n \<le> 222 \<and> n \<noteq> 215)
         then char_of (n + 32) else c)"

definition lower :: "string \<Rightarrow> string" where
  "lower s = map lower_char s"

text \<open>\<open>str\<close> on an \<open>int\<close>: its decimal digits, with a minus sign when negative.\<close>

fun digits10 :: "nat \<Rightarrow> string" where
  "digits10 n =
     (if n < 10 then [char_of (48 + n)]
      else digits10 (n div 10) @ [char_of (48 + n mod 10)])"

declare digits10.simps [simp del]

definition str_of_int :: "int \<Rightarrow> string" where
  "str_of_int i = (if i < 0 then CHR ''-'' # digits10 (nat (- i)) else digits10 (nat i))"

fun py_str :: "env \<Rightarrow> pyval \<Rightarrow> string" where
  "py_str E PNone = ''None''"
| "py_str E (PBool b) = (if b then ''True'' else ''False'')"
| "py_str E (PInt i) = str_of_int i"
| "py_str E (PFloat f) = str_of_float E f"
| "py_str E (PStr s) = s"
| "py_str E (PList xs) = str_of_container E (PList xs)"
| "py_str E (PDict kvs) = str_of_container E (PDict kvs)"

text \<open>Truth value of an object, as \<open>if x\<close> and \<open>not x\<close> test it.\<close>

fun truthy :: "pyval \<Rightarrow> bool" where
  "truthy PNone = False"
| "truthy (PBool b) = b"
| "truthy (PInt i) = (i \<noteq> 0)"
| "truthy (PFloat f) = (f \<noteq> Finite 0 \<and> f \<noteq> NegZero)"
| "truthy (PStr s) = (s \<noteq> [])"
| "truthy (PList xs) = (xs \<noteq> [])"
| "truthy (PDict kvs) = (kvs \<noteq> [])"

subsection \<open>Conversion to float\<close>

text \<open>
  \<open>float(i)\<close> on an \<open>int\<close> rounds the magnitude to 53 significant bits, ties to even, and
  raises \<open>OverflowError\<close> when the rounded magnitude would reach \<open>2 ^ 1024\<close>.
\<close>

definition round_double :: "nat \<Rightarrow> nat" where
  "round_double a =
     (if a < 2 ^ 53 then a
      else
        let sh = floorlog 2 a - 53;
            q = a div 2 ^ sh;
            r = a mod 2 ^ sh;
            h = 2 ^ (sh - 1)
        in (if h < r \<or> (r = h \<and> odd q) then q + 1 else q) * 2 ^ sh)"

definition float_of_int :: "int \<Rightarrow> pyfloat outcome" where
  "float_of_int i =
     (let m = round_double (nat \<bar>i\<bar>)
      in if 2 ^ 1024 \<le> m then Raised OverflowError
         else Returned (Finite (of_int (sgn i * int m))))"

fun py_float :: "env \<Rightarrow> pyval \<Rightarrow> pyfloat outcome" where
  "py_float E PNone = Raised TypeError"
| "py_float E (PBool b) = Returned (Finite (if b then 1 else 0))"
| "py_float E (PInt i) = float_of_int i"
| "py_float E (PFloat f) = Returned f"
| "py_float E (PStr s) =
     (case float_of_str E s of None \<Rightarrow> Raised ValueError | Some f \<Rightarrow> Returned f)"
| "py_float E (PList xs) = Raised TypeError"
| "py_float E (PDict kvs) = Raised TypeError"

text \<open>Comparison of a float with an int is exact; every comparison with NaN is false.\<close>

fun float_lt_int :: "pyfloat \<Rightarrow> int \<Rightarrow> bool" where
  "float_lt_int (Finite q) n = (q < of_int n)"
| "float_lt_int NegZero n = (0 < n)"
| "float_lt_int PosInf n = False"
| "float_lt_int NegInf n = True"
| "float_lt_int NaN n = False"

fun float_gt_int :: "pyfloat \<Rightarrow> int \<Rightarrow> bool" where
  "float_gt_int (Finite q) n = (of_int n < q)"
| "float_gt_int NegZero n = (n < 0)"
| "float_gt_int PosInf n = True"
| "float_gt_int NegInf n = False"
| "float_gt_int NaN n = False"

section \<open>Data model (models.py)\<close>

text \<open>
  A \<open>Device\<close> row with its primary key and the id of its owning user. A \<open>Log\<close> row holds
  the device's id, the action and the value as its \<open>FloatField\<close> stores it; the timestamp
  the database assigns is not modelled.
\<close>

record device =
  dev_id :: nat
  user :: nat
  name :: string
  device_type :: string
  status :: string

record log =
  l_device :: nat
  l_action :: string
  l_value :: "pyfloat option"

record store =
  devices :: "device list"
  logs :: "log list"

text \<open>
  \<open>device.save()\<close>: the row with the device's primary key is updated; when there is none
  the row is inserted.
\<close>

definition save :: "device \<Rightarrow> store \<Rightarrow> store" where
  "save d st =
     (if \<exists>e \<in> set (devices st). dev_id e = dev_id d
      then st\<lparr>devices := map (\<lambda>e. if dev_id e = dev_id d then d else e) (devices st)\<rparr>
      else st\<lparr>devices := devices st @ [d]\<rparr>)"

section \<open>Validation and limits table (views.py)\<close>

record limits =
  lim_min :: int
  lim_max :: int
  lim_unit :: string

definition DEVICE_LIMITS :: "(string \<times> limits) list" where
  "DEVICE_LIMITS =
     [(''thermostat'', \<lparr>lim_min = 16, lim_max = 32, lim_unit = [CHR 0xB0, CHR ''C'']\<rparr>),
      (''ac'', \<lparr>lim_min = 16, lim_max = 30, lim_unit = [CHR 0xB0, CHR ''C'']\<rparr>),
      (''heater'', \<lparr>lim_min = 18, lim_max = 35, lim_unit = [CHR 0xB0, CHR ''C'']\<rparr>),
      (''fan'', \<lparr>lim_min = 0, lim_max = 5, lim_unit = ''speed''\<rparr>)]"

text \<open>The message of an out-of-range value, an f-string over the device and its limits.\<close>

definition range_message :: "device \<Rightarrow> limits \<Rightarrow> string" where
  "range_message d l =
     name d @ '' '' @ lim_unit l @ '' must be between '' @ str_of_int (lim_min l)
       @ '' and '' @ str_of_int (lim_max l)"

definition validate_device_value :: "env \<Rightarrow> device \<Rightarrow> pyval \<Rightarrow> (bool \<times> string option) outcome" where
  "validate_device_value E d v =
     (case map_of DEVICE_LIMITS (lower (device_type d)) of
        Some l \<Rightarrow>
          (case py_float E v of
             Raised err \<Rightarrow>
               (if err = ValueError \<or> err = TypeError
                then Returned (False, Some ''Invalid value: must be a number'')
                else Raised err)
           | Returned f \<Rightarrow>
               (if float_lt_int f (lim_min l) \<or> float_gt_int f (lim_max l)
                then Returned (False, Some (range_message d l))
                else Returned (True, None)))
      | None \<Rightarrow> Returned (True, None))"

section \<open>Action applier (views.py)\<close>

text \<open>
  \<open>apply_device_action\<close> mutates the device object it is given and saves it; the model
  returns the store and the device object after the call, with the pair the code returns
  or the exception that leaves it.
\<close>

definition apply_device_action :: "env \<Rightarrow> store \<Rightarrow> device \<Rightarrow> pyval \<Rightarrow> pyval \<Rightarrow> store \<times> device \<times> (bool \<times> string option) outcome" where
  "apply_device_action E st d act v =
     (if act = PStr ''turn_on'' then
        (let d' = d\<lparr>status := ''on''\<rparr> in (save d' st, d', Returned (True, None)))
      else if act = PStr ''turn_off'' then
        (let d' = d\<lparr>status := ''off''\<rparr> in (save d' st, d', Returned (True, None)))
      else if act = PStr ''set_temperature'' \<and> v \<noteq> PNone then
        (case validate_device_value E d v of
           Raised err \<Rightarrow> (st, d, Raised err)
         | Returned (is_valid, error_msg) \<Rightarrow>
             (if \<not> is_valid then (st, d, Returned (False, error_msg))
              else (let d' = d\<lparr>status := py_str E v\<rparr>
                    in (save d' st, d', Returned (True, None)))))
      else if act = PStr ''set_speed'' \<and> v \<noteq> PNone then
        (case validate_device_value E d v of
           Raised err \<Rightarrow> (st, d, Raised err)
         | Returned (is_valid, error_msg) \<Rightarrow>
             (if \<not> is_valid then (st, d, Returned (False, error_msg))
              else (let d' = d\<lparr>status := py_str E v\<rparr>
                    in (save d' st, d', Returned (True, None)))))
      else (st, d, Returned (False, Some ''Invalid action or missing value'')))"

section \<open>Audit logger (utils/logger.py)\<close>

text \<open>
  \<open>Log.objects.create\<close> converts the value as the \<open>FloatField\<close> of models.py does (\<open>None\<close>
  stays \<open>None\<close>, anything else goes through \<open>float\<close>, whose exception leaves the call) and
  the action as the \<open>CharField\<close> does (\<open>str\<close> of the object; \<open>None\<close> violates the column's
  NOT NULL constraint).
\<close>

definition create_log :: "env \<Rightarrow> store \<Rightarrow> device \<Rightarrow> pyval \<Rightarrow> pyval \<Rightarrow> store \<times> unit outcome" where
  "create_log E st dv act v =
     (case (if v = PNone then Returned None
            else (case py_float E v of Raised err \<Rightarrow> Raised err | Returned f \<Rightarrow> Returned (Some f))) of
        Raised err \<Rightarrow> (st, Raised err)
      | Returned fv \<Rightarrow>
          (if act = PNone then (st, Raised IntegrityError)
           else (st\<lparr>logs := logs st @ [\<lparr>l_device = dev_id dv, l_action = py_str E act, l_value = fv\<rparr>]\<rparr>,
                 Returned ())))"

definition log_action :: "env \<Rightarrow> store \<Rightarrow> nat \<Rightarrow> pyval \<Rightarrow> pyval \<Rightarrow> store \<times> unit outcome" where
  "log_action E st device_id act v =
     (case find (\<lambda>e. dev_id e = device_id) (devices st) of
        None \<Rightarrow> (st, Returned ())
      | Some dv \<Rightarrow> create_log E st dv act v)"

section \<open>Dispatch: direct control (views.py)\<close>

record request =
  req_user :: nat
  data :: "(string \<times> pyval) list"

record response =
  status_code :: nat
  body :: "(string \<times> pyval) list"

text \<open>\<open>d.get(k)\<close> on a dict: the value, or \<open>None\<close> for a missing key.\<close>

definition dict_get :: "(string \<times> pyval) list \<Rightarrow> string \<Rightarrow> pyval" where
  "dict_get kvs k = (case map_of kvs k of None \<Rightarrow> PNone | Some v \<Rightarrow> v)"

definition opt_str :: "string option \<Rightarrow> pyval" where
  "opt_str m = (case m of None \<Rightarrow> PNone | Some s \<Rightarrow> PStr s)"

text \<open>
  \<open>DeviceViewSet.control\<close>; \<open>get_object_or_404\<close> raises \<open>Http404\<close> when the user has no
  device with the primary key \<open>pk\<close>.
\<close>

definition control :: "env \<Rightarrow> store \<Rightarrow> request \<Rightarrow> nat \<Rightarrow> store \<times> response outcome" where
  "control E st req pk =
     (case find (\<lambda>e. dev_id e = pk \<and> user e = req_user req) (devices st) of
        None \<Rightarrow> (st, Raised Http404)
      | Some dv \<Rightarrow>
          (let action_type = dict_get (data req) ''action'';
               v = dict_get (data req) ''value''
           in case apply_device_action E st dv action_type v of
                (st1, dv1, Raised err) \<Rightarrow> (st1, Raised err)
              | (st1, dv1, Returned (success, error_msg)) \<Rightarrow>
                  (if \<not> success then
                     (st1, Returned \<lparr>status_code = 400, body = [(''error'', opt_str error_msg)]\<rparr>)
                   else
                     (case log_action E st1 (dev_id dv1) action_type v of
                        (st2, Raised err) \<Rightarrow> (st2, Raised err)
                      | (st2, Returned u) \<Rightarrow>
                          (st2, Returned \<lparr>status_code = 200,
                             body = [(''message'', PStr (name dv1 @ '' updated to '' @ status dv1)),
                                     (''device'', PStr (name dv1)),
                                     (''new_status'', PStr (status dv1))]\<rparr>)))))"

section \<open>Command interpreter (utils/gemini.py)\<close>

definition NL :: string where
  "NL = [CHR 0x0A]"

text \<open>The action names that the prompt offers to the language service (rule 4 of the prompt).\<close>

definition PROMPT_ACTIONS :: "string list" where
  "PROMPT_ACTIONS = [''turn_on'', ''turn_off'', ''set_temperature'', ''set_brightness'', ''set_speed'']"

fun join :: "string \<Rightarrow> string list \<Rightarrow> string" where
  "join sep [] = []"
| "join sep [x] = x"
| "join sep (x # y # ys) = x @ sep @ join sep (y # ys)"

definition build_prompt :: "env \<Rightarrow> pyval \<Rightarrow> string" where
  \<open>build_prompt E command_text =
     ''You are a smart home automation assistant. Parse this command and return ONLY a JSON object.'' @ NL
     @ NL
     @ ''Rules:'' @ NL
     @ ''1. Return ONLY valid JSON, no markdown, no extra text'' @ NL
     @ ''2. Required: "device_name" and "action"'' @ NL
     @ ''3. Optional: "value" (number)'' @ NL
     @ ''4. Actions: '' @ join '', '' PROMPT_ACTIONS @ NL
     @ NL
     @ ''Command: "'' @ py_str E command_text @ ''"'' @ NL
     @ NL
     @ ''Valid JSON examples:'' @ NL
     @ ''{"device_name": "Living Room Light", "action": "turn_on"}'' @ NL
     @ ''{"device_name": "AC", "action": "set_temperature", "value": 22}'' @ NL
     @ NL
     @ ''Return JSON now:''\<close>

text \<open>
  \<open>re.sub(r"```json\s*", "", s)\<close> and \<open>re.sub(r"```\s*", "", s)\<close>: one pass from the left;
  where the fence starts, it and the white space after it are dropped and the scan goes on
  behind them, elsewhere the character is kept.
\<close>

function sub_json_fence :: "string \<Rightarrow> string" where
  "sub_json_fence [] = []"
| "sub_json_fence (c # cs) =
     (if take 7 (c # cs) = ''```json'' then sub_json_fence (dropWhile is_space (drop 7 (c # cs)))
      else c # sub_json_fence cs)"
  by pat_completeness auto
termination
  apply (relation "measure length")
    apply simp
   apply (simp, rule le_imp_less_Suc, rule order_trans [OF length_dropWhile_le], simp)
  apply simp
  done

function sub_fence :: "string \<Rightarrow> string" where
  "sub_fence [] = []"
| "sub_fence (c # cs) =
     (if take 3 (c # cs) = ''```'' then sub_fence (dropWhile is_space (drop 3 (c # cs)))
      else c # sub_fence cs)"
  by pat_completeness auto
termination
  apply (relation "measure length")
    apply simp
   apply (simp, rule le_imp_less_Suc, rule order_trans [OF length_dropWhile_le], simp)
  apply simp
  done

declare sub_json_fence.simps [simp del] sub_fence.simps [simp del]

definition clean_response :: "string \<Rightarrow> string" where
  "clean_response text = strip (sub_fence (sub_json_fence (strip text)))"

text \<open>
  \<open>re.search(r"\{[^}]*\}", s, re.DOTALL)\<close>: the leftmost opening brace with everything up to
  the first closing brace behind it; no match when no closing brace follows.
\<close>

definition search_object :: "string \<Rightarrow> string option" where
  "search_object s =
     (case dropWhile (\<lambda>c. c \<noteq> CHR ''{'') s of
        [] \<Rightarrow> None
      | c # t \<Rightarrow>
          (if dropWhile (\<lambda>c. c \<noteq> CHR ''}'') t = [] then None
           else Some (c # takeWhile (\<lambda>c. c \<noteq> CHR ''}'') t @ ''}'')))"

text \<open>
  The part of \<open>parse_command_with_gemini\<close> behind the service call: from the text of the
  answer to the parsed dict, or \<open>None\<close>.
\<close>

definition interpret_response :: "env \<Rightarrow> string \<Rightarrow> (string \<times> pyval) list option" where
  "interpret_response E text =
     (case search_object (clean_response text) of
        None \<Rightarrow> None
      | Some json_text \<Rightarrow>
          (case json_loads E json_text of
             None \<Rightarrow> None
           | Some parsed \<Rightarrow>
               (if map_of parsed ''device_name'' \<noteq> None \<and> map_of parsed ''action'' \<noteq> None
                then Some parsed else None)))"

definition parse_command_with_gemini :: "env \<Rightarrow> pyval \<Rightarrow> (string \<times> pyval) list option" where
  "parse_command_with_gemini E command_text =
     (if GEMINI_API_KEY E = None \<or> GEMINI_API_KEY E = Some [] then None
      else (case generate_content E (build_prompt E command_text) of
              Inl err \<Rightarrow> None
            | Inr text \<Rightarrow> interpret_response E text))"

section \<open>Dispatch: assistant command (views.py)\<close>

text \<open>
  \<open>Device.objects.filter(name__iexact=device_name, user=request.user).first()\<close>: the
  matching row with the least primary key. A lookup value that is not a \<open>str\<close> is compared
  through its \<open>str\<close>; \<open>None\<close> asks for a null name, which no row has.
\<close>

definition matches :: "env \<Rightarrow> pyval \<Rightarrow> nat \<Rightarrow> device \<Rightarrow> bool" where
  "matches E device_name u e =
     (device_name \<noteq> PNone \<and> name_iexact E (name e) (py_str E device_name) \<and> user e = u)"

fun first_by_pk :: "device list \<Rightarrow> device option" where
  "first_by_pk [] = None"
| "first_by_pk (e # es) =
     (case first_by_pk es of
        None \<Rightarrow> Some e
      | Some b \<Rightarrow> if dev_id b < dev_id e then Some b else Some e)"

definition could_not_understand :: response where
  "could_not_understand =
     \<lparr>status_code = 400, body = [(''error'', PStr ''Could not understand command. Please try again.'')]\<rparr>"

definition post :: "env \<Rightarrow> store \<Rightarrow> request \<Rightarrow> store \<times> response outcome" where
  "post E st req =
     (let command_text = dict_get (data req) ''command''
      in if \<not> truthy command_text then
           (st, Returned \<lparr>status_code = 400, body = [(''error'', PStr ''Missing command'')]\<rparr>)
         else
           (case parse_command_with_gemini E command_text of
              None \<Rightarrow> (st, Returned could_not_understand)
            | Some parsed \<Rightarrow>
                (case (map_of parsed ''device_name'', map_of parsed ''action'') of
                   (Some device_name, Some act) \<Rightarrow>
                     (let v = dict_get parsed ''value''
                      in case first_by_pk (filter (matches E device_name (req_user req)) (devices st)) of
                           None \<Rightarrow>
                             (st, Returned \<lparr>status_code = 404,
                                body = [(''error'', PStr (''Device '' @ [CHR 0x27] @ py_str E device_name
                                                           @ [CHR 0x27] @ '' not found'')),
                                        (''suggestion'', PStr ''Please check device name or add it first'')]\<rparr>)
                         | Some dv \<Rightarrow>
                             (case apply_device_action E st dv act v of
                                (st1, dv1, Raised err) \<Rightarrow> (st1, Raised err)
                              | (st1, dv1, Returned (success, error_msg)) \<Rightarrow>
                                  (if \<not> success then
                                     (st1, Returned \<lparr>status_code = 400,
                                        body = [(''error'', opt_str error_msg),
                                                (''command'', command_text),
                                                (''device'', PStr (name dv1))]\<rparr>)
                                   else
                                     (case log_action E st1 (dev_id dv1) act v of
                                        (st2, Raised err) \<Rightarrow> (st2, Raised err)
                                      | (st2, Returned u) \<Rightarrow>
                                          (st2, Returned \<lparr>status_code = 200,
                                             body = [(''message'', PStr (name dv1 @ '' updated successfully'')),
                                                     (''device'', PStr (name dv1)),
                                                     (''action'', act),
                                                     (''value'', if truthy v then v else PNone),
                                                     (''new_status'', PStr (status dv1)),
                                                     (''command_understood'', command_text)]\<rparr>)))))
                 | (x, y) \<Rightarrow> (st, Returned could_not_understand))))"

section \<open>Example scenarios\<close>

text \<open>
  A household of one user with three devices, and an environment for the scenarios: the
  language service answers every prompt with the given text, \<open>json.loads\<close> is tabulated on
  the three answers used below, and the database compares names through \<open>lower\<close>. The
  scenarios convert no string other than \<open>abc\<close> to a float, on which \<open>float\<close> raises, and
  print no float and no container, so those functions are fixed arbitrarily.
\<close>

definition ac_device :: device where
  "ac_device = \<lparr>dev_id = 1, user = 1, name = ''AC'', device_type = ''ac'', status = ''24''\<rparr>"

definition fan_device :: device where
  "fan_device = \<lparr>dev_id = 2, user = 1, name = ''Fan'', device_type = ''fan'', status = ''3''\<rparr>"

definition light_device :: device where
  "light_device =
     \<lparr>dev_id = 3, user = 1, name = ''Living Room Light'', device_type = ''light'', status = ''off''\<rparr>"

definition home :: store where
  "home = \<lparr>devices = [ac_device, fan_device, light_device], logs = []\<rparr>"

definition fan_answer :: string where
  \<open>fan_answer = ''{"device_name": "fan", "action": "set_speed", "value": 0}''\<close>

definition kitchen_answer :: string where
  \<open>kitchen_answer = ''{"device_name": "kitchen light", "action": "turn_on"}''\<close>

definition no_action_answer :: string where
  \<open>no_action_answer = ''{"device_name": "Fan"}''\<close>

definition answering :: "string \<Rightarrow> env" where
  "answering text =
     \<lparr>float_of_str = (\<lambda>s. None),
      str_of_float = (\<lambda>f. []),
      str_of_container = (\<lambda>v. []),
      json_loads = map_of
        [(fan_answer, [(''device_name'', PStr ''fan''), (''action'', PStr ''set_speed''), (''value'', PInt 0)]),
         (kitchen_answer, [(''device_name'', PStr ''kitchen light''), (''action'', PStr ''turn_on'')]),
         (no_action_answer, [(''device_name'', PStr ''Fan'')])],
      name_iexact = (\<lambda>a b. lower a = lower b),
      GEMINI_API_KEY = Some ''key'',
      generate_content = (\<lambda>p. Inr text)\<rparr>"

definition fan_request :: request where
  "fan_request = \<lparr>req_user = 1, data = [(''command'', PStr ''set the fan speed to 0'')]\<rparr>"

definition home_after_fan :: store where
  "home_after_fan =
     \<lparr>devices = [ac_device, fan_device\<lparr>status := ''0''\<rparr>, light_device],
      logs = [\<lparr>l_device = 2, l_action = ''set_speed'', l_value = Some (Finite 0)\<rparr>]\<rparr>"

definition fan_response :: response where
  "fan_response =
     \<lparr>status_code = 200,
      body = [(''message'', PStr ''Fan updated successfully''),
              (''device'', PStr ''Fan''),
              (''action'', PStr ''set_speed''),
              (''value'', PNone),
              (''new_status'', PStr ''0''),
              (''command_understood'', PStr ''set the fan speed to 0'')]\<rparr>"

definition kitchen_request :: request where
  "kitchen_request = \<lparr>req_user = 1, data = [(''command'', PStr ''turn on the kitchen light'')]\<rparr>"

definition no_action_request :: request where
  "no_action_request = \<lparr>req_user = 1, data = [(''command'', PStr ''do something with the fan'')]\<rparr>"

section \<open>Evaluation rules\<close>

lemmas char_eval = char_of_def bit_0 lower_def lower_char_def is_space_def

lemmas scenario_defs = answering_def home_def ac_device_def fan_device_def light_device_def

lemmas value_eval = float_of_int_def round_double_def str_of_int_def digits10.simps range_message_def

section \<open>Validation\<close>

text \<open>
  Claim C1, as the code has it: a device whose lower-cased type is not a key of the limits
  table passes validation with every value, whether the value converts to a float or not.
\<close>

theorem unknown_type_accepts_every_value:
  "map_of DEVICE_LIMITS (lower (device_type d)) = None \<Longrightarrow>
     validate_device_value E d v = Returned (True, None)"
  by (simp add: validate_device_value_def)

theorem unknown_type_accepts_every_value_witness:
  "map_of DEVICE_LIMITS (lower (device_type light_device)) = None
   \<and> validate_device_value (answering []) light_device (PInt 7) = Returned (True, None)"
proof -
  have h: "map_of DEVICE_LIMITS (lower (device_type light_device)) = None"
    by (simp add: DEVICE_LIMITS_def light_device_def char_eval)
  from h unknown_type_accepts_every_value [OF h, of "answering []" "PInt 7"]
  show ?thesis by simp
qed

text \<open>
  Claim C1 as stated asks that a value which does not convert to a float is rejected for
  such a device. The string \<open>abc\<close> does not convert, and the light accepts it.
\<close>

theorem unknown_type_rejects_non_numeric_counterexample:
  "map_of DEVICE_LIMITS (lower (device_type light_device)) = None
   \<and> py_float (answering []) (PStr ''abc'') = Raised ValueError
   \<and> validate_device_value (answering []) light_device (PStr ''abc'') = Returned (True, None)"
  by (simp add: validate_device_value_def DEVICE_LIMITS_def light_device_def answering_def char_eval)

section \<open>Action applier\<close>

lemma apply_failure_unchanged:
  "apply_device_action E st d act v = (st', d', Returned (False, msg)) \<Longrightarrow> st' = st \<and> d' = d"
  by (auto simp add: apply_device_action_def Let_def split: if_splits outcome.splits prod.splits)

text \<open>
  Claim C2: when \<open>apply_device_action\<close> returns failure, the store (every device row and
  the log) and the device object are what they were before the call; a failed validation of
  a value-bearing action is returned with the validation's own message; and the control
  endpoint then answers with that error and leaves the store as it was, so no log entry is
  written.
\<close>

theorem failed_apply_changes_nothing:
  "(apply_device_action E st d act v = (st', d', Returned (False, msg)) \<longrightarrow> st' = st \<and> d' = d)
   \<and> ((act = PStr ''set_temperature'' \<or> act = PStr ''set_speed'') \<and> v \<noteq> PNone
        \<and> validate_device_value E d v = Returned (False, msg)
      \<longrightarrow> apply_device_action E st d act v = (st, d, Returned (False, msg)))
   \<and> (find (\<lambda>e. dev_id e = pk \<and> user e = req_user req) (devices st) = Some d
        \<and> apply_device_action E st d (dict_get (data req) ''action'') (dict_get (data req) ''value'')
            = (st', d', Returned (False, msg))
      \<longrightarrow> control E st req pk = (st, Returned \<lparr>status_code = 400, body = [(''error'', opt_str msg)]\<rparr>))"
proof -
  have a: "apply_device_action E st d act v = (st', d', Returned (False, msg)) \<longrightarrow> st' = st \<and> d' = d"
    using apply_failure_unchanged by blast
  have b: "(act = PStr ''set_temperature'' \<or> act = PStr ''set_speed'') \<and> v \<noteq> PNone
        \<and> validate_device_value E d v = Returned (False, msg)
      \<longrightarrow> apply_device_action E st d act v = (st, d, Returned (False, msg))"
    by (auto simp add: apply_device_action_def)
  have c: "find (\<lambda>e. dev_id e = pk \<and> user e = req_user req) (devices st) = Some d
        \<and> apply_device_action E st d (dict_get (data req) ''action'') (dict_get (data req) ''value'')
            = (st', d', Returned (False, msg))
      \<longrightarrow> control E st req pk = (st, Returned \<lparr>status_code = 400, body = [(''error'', opt_str msg)]\<rparr>)"
  proof
    assume h: "find (\<lambda>e. dev_id e = pk \<and> user e = req_user req) (devices st) = Some d
        \<and> apply_device_action E st d (dict_get (data req) ''action'') (dict_get (data req) ''value'')
            = (st', d', Returned (False, msg))"
    then have "st' = st" using apply_failure_unchanged by blast
    with h show "control E st req pk
        = (st, Returned \<lparr>status_code = 400, body = [(''error'', opt_str msg)]\<rparr>)"
      by (simp add: control_def Let_def)
  qed
  from a b c show ?thesis by blast
qed

theorem failed_apply_changes_nothing_witness:
  "validate_device_value (answering []) ac_device (PInt 10)
     = Returned (False, Some (''AC '' @ [CHR 0xB0] @ ''C must be between 16 and 30''))
   \<and> apply_device_action (answering []) home ac_device (PStr ''set_temperature'') (PInt 10)
     = (home, ac_device, Returned (False, Some (''AC '' @ [CHR 0xB0] @ ''C must be between 16 and 30'')))
   \<and> control (answering []) home
       \<lparr>req_user = 1, data = [(''action'', PStr ''set_temperature''), (''value'', PInt 10)]\<rparr> 1
     = (home, Returned \<lparr>status_code = 400,
          body = [(''error'', PStr (''AC '' @ [CHR 0xB0] @ ''C must be between 16 and 30''))]\<rparr>)"
proof -
  let ?m = "Some (''AC '' @ [CHR 0xB0] @ ''C must be between 16 and 30'')"
  let ?req = "\<lparr>req_user = 1, data = [(''action'', PStr ''set_temperature''), (''value'', PInt 10)]\<rparr>"
  have v: "validate_device_value (answering []) ac_device (PInt 10) = Returned (False, ?m)"
    by (simp add: validate_device_value_def DEVICE_LIMITS_def scenario_defs char_eval value_eval)
  have f: "find (\<lambda>e. dev_id e = 1 \<and> user e = req_user ?req) (devices home) = Some ac_device"
    by (simp add: scenario_defs)
  have g: "dict_get (data ?req) ''action'' = PStr ''set_temperature''"
    "dict_get (data ?req) ''value'' = PInt 10"
    by (simp_all add: dict_get_def)
  note t = failed_apply_changes_nothing
    [of "answering []" home ac_device "PStr ''set_temperature''" "PInt 10" home ac_device ?m 1 ?req]
  from t v have a: "apply_device_action (answering []) home ac_device (PStr ''set_temperature'') (PInt 10)
     = (home, ac_device, Returned (False, ?m))" by simp
  from t a f g have "control (answering []) home ?req 1
      = (home, Returned \<lparr>status_code = 400, body = [(''error'', opt_str ?m)]\<rparr>)"
    by simp
  with v a show ?thesis by (simp add: opt_str_def)
qed

text \<open>
  Claim C7: an action other than \<open>turn_on\<close>, \<open>turn_off\<close>, \<open>set_temperature\<close> and \<open>set_speed\<close>,
  or one of the last two without a value, fails with the message
  \<open>Invalid action or missing value\<close> and leaves the store and the device as they were. The
  prompt offers \<open>set_brightness\<close> to the language service, and that action fails so.
\<close>

theorem invalid_action_or_missing_value:
  "(act \<notin> {PStr ''turn_on'', PStr ''turn_off'', PStr ''set_temperature'', PStr ''set_speed''}
     \<or> (act \<in> {PStr ''set_temperature'', PStr ''set_speed''} \<and> v = PNone)
    \<longrightarrow> apply_device_action E st d act v
          = (st, d, Returned (False, Some ''Invalid action or missing value'')))
   \<and> ''set_brightness'' \<in> set PROMPT_ACTIONS
   \<and> apply_device_action E st d (PStr ''set_brightness'') v
       = (st, d, Returned (False, Some ''Invalid action or missing value''))"
  by (auto simp add: apply_device_action_def PROMPT_ACTIONS_def)

theorem invalid_action_or_missing_value_witness:
  "apply_device_action (answering []) home ac_device (PStr ''set_temperature'') PNone
     = (home, ac_device, Returned (False, Some ''Invalid action or missing value''))
   \<and> apply_device_action (answering []) home ac_device (PStr ''fly_to_moon'') (PInt 1)
     = (home, ac_device, Returned (False, Some ''Invalid action or missing value''))"
  using invalid_action_or_missing_value [of "PStr ''set_temperature''" PNone "answering []" home ac_device]
    invalid_action_or_missing_value [of "PStr ''fly_to_moon''" "PInt 1" "answering []" home ac_device]
  by simp

text \<open>
  Claim C10: whatever the action and the value, and whether the call succeeds, fails or
  raises, the device object after \<open>apply_device_action\<close> differs from the one before at most
  in its status: primary key, owner, name and device type are the same.
\<close>

theorem apply_changes_only_status:
  "fst (snd (apply_device_action E st d act v))
     = d\<lparr>status := status (fst (snd (apply_device_action E st d act v)))\<rparr>
   \<and> name (fst (snd (apply_device_action E st d act v))) = name d
   \<and> device_type (fst (snd (apply_device_action E st d act v))) = device_type d
   \<and> user (fst (snd (apply_device_action E st d act v))) = user d
   \<and> dev_id (fst (snd (apply_device_action E st d act v))) = dev_id d"
  by (simp add: apply_device_action_def Let_def split: outcome.splits prod.splits)

section \<open>Direct control\<close>

text \<open>
  Claim C6: for a device of type \<open>ac\<close> with status \<open>24\<close> that the requesting user owns, the
  control request with action \<open>set_temperature\<close> and value 20 succeeds; the device's row has
  status \<open>20\<close> afterwards, and the log is the old log with one new entry for that device,
  with action \<open>set_temperature\<close> and value 20.
\<close>

theorem control_ac_set_temperature_20:
  assumes f: "find (\<lambda>e. dev_id e = pk \<and> user e = req_user req) (devices st) = Some d"
    and t: "device_type d = ''ac''"
    and s: "status d = ''24''"
    and a: "map_of (data req) ''action'' = Some (PStr ''set_temperature'')"
    and v: "map_of (data req) ''value'' = Some (PInt 20)"
  shows "control E st req pk =
     (\<lparr>devices = map (\<lambda>e. if dev_id e = dev_id d then d\<lparr>status := ''20''\<rparr> else e) (devices st),
       logs = logs st @ [\<lparr>l_device = dev_id d, l_action = ''set_temperature'', l_value = Some (Finite 20)\<rparr>]\<rparr>,
      Returned \<lparr>status_code = 200,
        body = [(''message'', PStr (name d @ '' updated to 20'')),
                (''device'', PStr (name d)),
                (''new_status'', PStr ''20'')]\<rparr>)"
proof -
  have val: "validate_device_value E d (PInt 20) = Returned (True, None)"
    by (simp add: validate_device_value_def DEVICE_LIMITS_def t char_eval value_eval)
  have str: "str_of_int 20 = ''20''"
    by (simp add: char_eval value_eval)
  have mem: "\<exists>e \<in> set (devices st). dev_id e = dev_id d"
    using f by (auto simp add: find_Some_iff)
  let ?d = "d\<lparr>status := ''20''\<rparr>"
  let ?st1 = "st\<lparr>devices := map (\<lambda>e. if dev_id e = dev_id d then ?d else e) (devices st)\<rparr>"
  have sv: "save ?d st = ?st1" using mem by (simp add: save_def)
  have ap: "apply_device_action E st d (PStr ''set_temperature'') (PInt 20)
      = (?st1, ?d, Returned (True, None))"
    by (simp add: apply_device_action_def val str sv Let_def)
  have "\<exists>dv. find (\<lambda>e. dev_id e = dev_id d) (devices ?st1) = Some dv"
    using mem by (cases "find (\<lambda>e. dev_id e = dev_id d) (devices ?st1)") (auto simp add: find_None_iff)
  then obtain dv where fd: "find (\<lambda>e. dev_id e = dev_id d) (devices ?st1) = Some dv" ..
  then have id: "dev_id dv = dev_id d" by (auto simp add: find_Some_iff)
  have fl: "float_of_int 20 = Returned (Finite 20)" by (simp add: value_eval)
  have lg: "log_action E ?st1 (dev_id d) (PStr ''set_temperature'') (PInt 20)
      = (?st1\<lparr>logs := logs st @ [\<lparr>l_device = dev_id d, l_action = ''set_temperature'',
                                    l_value = Some (Finite 20)\<rparr>]\<rparr>, Returned ())"
    using fd id by (simp add: log_action_def create_log_def fl)
  show ?thesis
    using f a v ap lg by (simp add: control_def dict_get_def Let_def)
qed

theorem control_ac_set_temperature_20_witness:
  "control (answering []) home
     \<lparr>req_user = 1, data = [(''action'', PStr ''set_temperature''), (''value'', PInt 20)]\<rparr> 1
   = (\<lparr>devices = [ac_device\<lparr>status := ''20''\<rparr>, fan_device, light_device],
       logs = [\<lparr>l_device = 1, l_action = ''set_temperature'', l_value = Some (Finite 20)\<rparr>]\<rparr>,
      Returned \<lparr>status_code = 200,
        body = [(''message'', PStr ''AC updated to 20''),
                (''device'', PStr ''AC''),
                (''new_status'', PStr ''20'')]\<rparr>)"
proof -
  let ?req = "\<lparr>req_user = 1, data = [(''action'', PStr ''set_temperature''), (''value'', PInt 20)]\<rparr>"
  have f: "find (\<lambda>e. dev_id e = 1 \<and> user e = req_user ?req) (devices home) = Some ac_device"
    by (simp add: scenario_defs)
  have t: "device_type ac_device = ''ac''" and s: "status ac_device = ''24''"
    by (simp_all add: ac_device_def)
  have a: "map_of (data ?req) ''action'' = Some (PStr ''set_temperature'')"
    and v: "map_of (data ?req) ''value'' = Some (PInt 20)"
    by simp_all
  from control_ac_set_temperature_20 [OF f t s a v, of "answering []"]
  show ?thesis by (simp add: scenario_defs)
qed

section \<open>Conversion of large integers\<close>

lemma round_double_overflow:
  assumes a: "2 ^ 1024 \<le> a"
  shows "2 ^ 1024 \<le> round_double a"
proof -
  let ?n = "floorlog 2 a"
  let ?sh = "?n - 53"
  have pos: "0 < a" using a by (simp add: order.strict_trans2 [OF _ a])
  have b: "2 ^ (?n - 1) \<le> a" "a < 2 ^ ?n"
    using floorlog_bounds [of a 2] pos by simp_all
  have "(2::nat) ^ 1024 < 2 ^ ?n" using a b(2) by (rule order.strict_trans1)
  then have n: "1024 < ?n" by (simp only: power_strict_increasing_iff)
  have big: "\<not> a < 2 ^ 53"
  proof -
    have "(2::nat) ^ 53 \<le> 2 ^ 1024" by (rule power_increasing) simp_all
    with a show ?thesis by simp
  qed
  have split: "(2::nat) ^ (?n - 1) = 2 ^ 52 * 2 ^ ?sh"
  proof -
    have "?n - 1 = 52 + ?sh" using n by simp
    then show ?thesis by (simp only: power_add)
  qed
  have q: "2 ^ 52 \<le> a div 2 ^ ?sh"
  proof -
    have "2 ^ 52 * 2 ^ ?sh \<le> a" using b(1) split by simp
    then have "(2 ^ 52 * 2 ^ ?sh) div 2 ^ ?sh \<le> a div 2 ^ ?sh" by (rule div_le_mono)
    then show ?thesis by simp
  qed
  have "2 ^ 1024 \<le> (2::nat) ^ (?n - 1)" using n by (intro power_increasing) simp_all
  also have "\<dots> = 2 ^ 52 * 2 ^ ?sh" by (rule split)
  also have "\<dots> \<le> (a div 2 ^ ?sh) * 2 ^ ?sh" using q by (rule mult_le_mono1)
  also have "\<dots> \<le> round_double a"
    using big by (simp add: round_double_def Let_def)
  finally show ?thesis .
qed

lemma float_of_int_overflow: "2 ^ 1024 \<le> \<bar>i\<bar> \<Longrightarrow> float_of_int i = Raised OverflowError"
proof -
  assume h: "2 ^ 1024 \<le> \<bar>i\<bar>"
  then have "2 ^ 1024 \<le> nat \<bar>i\<bar>" by (simp add: le_nat_iff)
  then have "2 ^ 1024 \<le> round_double (nat \<bar>i\<bar>)" by (rule round_double_overflow)
  then show ?thesis by (simp add: float_of_int_def Let_def)
qed

section \<open>Validation of a type in the limits table\<close>

lemma validate_known_float:
  assumes "map_of DEVICE_LIMITS (lower (device_type d)) = Some l"
  shows "validate_device_value E d (PFloat (Finite q)) =
     (if of_int (lim_min l) \<le> q \<and> q \<le> of_int (lim_max l) then Returned (True, None)
      else Returned (False, Some (range_message d l)))"
  using assms by (auto simp add: validate_device_value_def)

lemma validate_known_int:
  assumes "map_of DEVICE_LIMITS (lower (device_type d)) = Some l" and "\<bar>i\<bar> < 2 ^ 53"
  shows "validate_device_value E d (PInt i) =
     (if lim_min l \<le> i \<and> i \<le> lim_max l then Returned (True, None)
      else Returned (False, Some (range_message d l)))"
proof -
  have "nat \<bar>i\<bar> < 2 ^ 53" using assms(2) by (simp add: nat_less_iff)
  then have r: "round_double (nat \<bar>i\<bar>) = nat \<bar>i\<bar>" by (simp add: round_double_def)
  have "(2::nat) ^ 53 \<le> 2 ^ 1024" by (rule power_increasing) simp_all
  with \<open>nat \<bar>i\<bar> < 2 ^ 53\<close> have "\<not> 2 ^ 1024 \<le> nat \<bar>i\<bar>" by simp
  moreover have "sgn i * int (nat \<bar>i\<bar>) = i" by (simp add: mult_sgn_abs)
  ultimately have "float_of_int i = Returned (Finite (of_int i))"
    by (simp add: float_of_int_def r Let_def)
  with assms(1) show ?thesis by (auto simp add: validate_device_value_def)
qed

lemma validate_known_not_number:
  assumes "map_of DEVICE_LIMITS (lower (device_type d)) = Some l"
    and "py_float E v = Raised ValueError \<or> py_float E v = Raised TypeError"
  shows "validate_device_value E d v = Returned (False, Some ''Invalid value: must be a number'')"
  using assms by (auto simp add: validate_device_value_def)

text \<open>
  Claim C3 at an integer too large for a float: the air conditioner's type is in the limits
  table with bounds 16 and 30, the value \<open>2 ^ 1024\<close> is above the maximum, and
  \<open>validate_device_value\<close> neither rejects it with the range message nor with
  \<open>Invalid value: must be a number\<close>: the \<open>OverflowError\<close> of \<open>float\<close> is not among the
  exceptions it catches, and leaves the function.
\<close>

theorem huge_int_leaves_validation:
  "map_of DEVICE_LIMITS (lower (device_type ac_device))
     = Some \<lparr>lim_min = 16, lim_max = 30, lim_unit = [CHR 0xB0, CHR ''C'']\<rparr>
   \<and> validate_device_value (answering []) ac_device (PInt (2 ^ 1024)) = Raised OverflowError"
proof -
  have "float_of_int (2 ^ 1024) = Raised OverflowError" by (rule float_of_int_overflow) simp
  then show ?thesis
    by (simp add: validate_device_value_def DEVICE_LIMITS_def scenario_defs char_eval)
qed

section \<open>Command interpreter\<close>

lemma sub_json_fence_no_tick: "CHR 0x60 \<notin> set s \<Longrightarrow> sub_json_fence s = s"
proof (induction s)
  case Nil
  show ?case by (simp add: sub_json_fence.simps)
next
  case (Cons c cs)
  then have "c \<noteq> CHR 0x60" by auto
  with Cons show ?case by (simp add: sub_json_fence.simps)
qed

lemma sub_fence_no_tick: "CHR 0x60 \<notin> set s \<Longrightarrow> sub_fence s = s"
proof (induction s)
  case Nil
  show ?case by (simp add: sub_fence.simps)
next
  case (Cons c cs)
  then have "c \<noteq> CHR 0x60" by auto
  with Cons show ?case by (simp add: sub_fence.simps)
qed

lemma strip_braces: "strip (CHR ''{'' # s @ ''}'') = CHR ''{'' # s @ ''}''"
  by (simp add: strip_def lstrip_def rstrip_def is_space_def)

lemma clean_plain_object:
  "CHR 0x60 \<notin> set s \<Longrightarrow> clean_response (CHR ''{'' # s @ ''}'') = CHR ''{'' # s @ ''}''"
  by (simp add: clean_response_def strip_braces sub_json_fence_no_tick sub_fence_no_tick)

lemma search_plain_object:
  "CHR ''}'' \<notin> set s \<Longrightarrow> search_object (CHR ''{'' # s @ ''}'') = Some (CHR ''{'' # s @ ''}'')"
  by (simp add: search_object_def dropWhile_append takeWhile_append)

lemma extract_plain_object:
  assumes "t = CHR ''{'' # s @ ''}''" and "CHR 0x60 \<notin> set s" and "CHR ''}'' \<notin> set s"
  shows "search_object (clean_response t) = Some t"
  using assms by (simp add: clean_plain_object search_plain_object)

lemma extract_fan: "search_object (clean_response fan_answer) = Some fan_answer"
  by (rule extract_plain_object
        [where s = \<open>''"device_name": "fan", "action": "set_speed", "value": 0''\<close>])
     (simp_all add: fan_answer_def)

lemma extract_kitchen: "search_object (clean_response kitchen_answer) = Some kitchen_answer"
  by (rule extract_plain_object
        [where s = \<open>''"device_name": "kitchen light", "action": "turn_on"''\<close>])
     (simp_all add: kitchen_answer_def)

lemma extract_no_action: "search_object (clean_response no_action_answer) = Some no_action_answer"
  by (rule extract_plain_object [where s = \<open>''"device_name": "Fan"''\<close>])
     (simp_all add: no_action_answer_def)

lemma loads_fan: "json_loads (answering t) fan_answer
    = Some [(''device_name'', PStr ''fan''), (''action'', PStr ''set_speed''), (''value'', PInt 0)]"
  by (simp add: answering_def)

lemma loads_kitchen: "json_loads (answering t) kitchen_answer
    = Some [(''device_name'', PStr ''kitchen light''), (''action'', PStr ''turn_on'')]"
  by (simp add: answering_def fan_answer_def kitchen_answer_def)

lemma loads_no_action:
  "json_loads (answering t) no_action_answer = Some [(''device_name'', PStr ''Fan'')]"
  by (simp add: answering_def fan_answer_def kitchen_answer_def no_action_answer_def)

lemma parse_answering:
  "parse_command_with_gemini (answering t) c = interpret_response (answering t) t"
  by (simp add: parse_command_with_gemini_def answering_def)

lemma parse_fan: "parse_command_with_gemini (answering fan_answer) c
    = Some [(''device_name'', PStr ''fan''), (''action'', PStr ''set_speed''), (''value'', PInt 0)]"
  by (simp add: parse_answering interpret_response_def extract_fan loads_fan)

lemma parse_kitchen: "parse_command_with_gemini (answering kitchen_answer) c
    = Some [(''device_name'', PStr ''kitchen light''), (''action'', PStr ''turn_on'')]"
  by (simp add: parse_answering interpret_response_def extract_kitchen loads_kitchen)

lemma parse_has_keys:
  "parse_command_with_gemini E c = Some parsed \<Longrightarrow>
     map_of parsed ''device_name'' \<noteq> None \<and> map_of parsed ''action'' \<noteq> None"
  by (auto simp add: parse_command_with_gemini_def interpret_response_def
      split: if_splits option.splits sum.splits)

section \<open>Assistant command\<close>

lemma first_by_pk_in: "first_by_pk xs = Some d \<Longrightarrow> d \<in> set xs"
  by (induction xs arbitrary: d) (auto split: option.splits if_splits)

lemma first_by_pk_selects:
  "case first_by_pk (filter P ds) of None \<Rightarrow> True | Some dv \<Rightarrow> P dv \<and> dv \<in> set ds"
proof (cases "first_by_pk (filter P ds)")
  case None
  then show ?thesis by simp
next
  case (Some dv)
  then have "dv \<in> set (filter P ds)" by (rule first_by_pk_in)
  with Some show ?thesis by simp
qed

lemma post_not_found:
  assumes c: "truthy (dict_get (data req) ''command'')"
    and p: "parse_command_with_gemini E (dict_get (data req) ''command'') = Some parsed"
    and n: "map_of parsed ''device_name'' = Some device_name"
    and f: "first_by_pk (filter (matches E device_name (req_user req)) (devices st)) = None"
  shows "post E st req =
      (st, Returned \<lparr>status_code = 404,
         body = [(''error'', PStr (''Device '' @ [CHR 0x27] @ py_str E device_name @ [CHR 0x27]
                                    @ '' not found'')),
                 (''suggestion'', PStr ''Please check device name or add it first'')]\<rparr>)"
proof -
  from parse_has_keys [OF p] obtain act where a: "map_of parsed ''action'' = Some act" by auto
  show ?thesis
    using c p n a f by (simp add: post_def Let_def)
qed

text \<open>
  Claim C4: when the text extracted from the service's answer does not parse as JSON, or
  parses to an object without the key \<open>device_name\<close> or without the key \<open>action\<close>, the
  interpretation is \<open>None\<close>, and the assistant endpoint answers
  \<open>Could not understand command\<close> whatever the store holds, and returns the store as it was.
\<close>

theorem uninterpretable_answer_not_understood:
  assumes x: "search_object (clean_response text) = Some j"
    and p: "json_loads E j = None
        \<or> (\<exists>parsed. json_loads E j = Some parsed
              \<and> (map_of parsed ''device_name'' = None \<or> map_of parsed ''action'' = None))"
    and c: "truthy (dict_get (data req) ''command'')"
    and g: "generate_content E (build_prompt E (dict_get (data req) ''command'')) = Inr text"
  shows "interpret_response E text = None
    \<and> parse_command_with_gemini E (dict_get (data req) ''command'') = None
    \<and> (\<forall>st. post E st req = (st, Returned could_not_understand))"
proof -
  have i: "interpret_response E text = None"
    using x p by (auto simp add: interpret_response_def)
  have q: "parse_command_with_gemini E (dict_get (data req) ''command'') = None"
    using i g by (simp add: parse_command_with_gemini_def)
  have "\<forall>st. post E st req = (st, Returned could_not_understand)"
    using c q by (simp add: post_def Let_def)
  with i q show ?thesis by simp
qed

theorem uninterpretable_answer_not_understood_witness:
  "search_object (clean_response no_action_answer) = Some no_action_answer
   \<and> json_loads (answering no_action_answer) no_action_answer = Some [(''device_name'', PStr ''Fan'')]
   \<and> interpret_response (answering no_action_answer) no_action_answer = None
   \<and> post (answering no_action_answer) home no_action_request = (home, Returned could_not_understand)"
proof -
  let ?E = "answering no_action_answer"
  have p: "json_loads ?E no_action_answer = None
        \<or> (\<exists>parsed. json_loads ?E no_action_answer = Some parsed
              \<and> (map_of parsed ''device_name'' = None \<or> map_of parsed ''action'' = None))"
    by (simp add: loads_no_action)
  have c: "truthy (dict_get (data no_action_request) ''command'')"
    by (simp add: no_action_request_def dict_get_def)
  have g: "generate_content ?E (build_prompt ?E (dict_get (data no_action_request) ''command''))
      = Inr no_action_answer"
    by (simp add: answering_def)
  from uninterpretable_answer_not_understood [OF extract_no_action p c g]
  show ?thesis by (simp add: extract_no_action loads_no_action)
qed

text \<open>
  Claim C5: when the assistant command parses and no device of the requesting user matches
  the parsed \<open>device_name\<close>, the endpoint answers 404 with the error \<open>Device '...' not found\<close>
  and a suggestion, and returns the store as it was: no device row and no log entry
  changes. Whatever the device list, the device the lookup selects is one of the list and
  matches the name and the user.
\<close>

theorem no_matching_device_not_found:
  assumes c: "truthy (dict_get (data req) ''command'')"
    and p: "parse_command_with_gemini E (dict_get (data req) ''command'') = Some parsed"
    and n: "map_of parsed ''device_name'' = Some device_name"
    and z: "filter (matches E device_name (req_user req)) (devices st) = []"
  shows "post E st req =
      (st, Returned \<lparr>status_code = 404,
         body = [(''error'', PStr (''Device '' @ [CHR 0x27] @ py_str E device_name @ [CHR 0x27]
                                    @ '' not found'')),
                 (''suggestion'', PStr ''Please check device name or add it first'')]\<rparr>)
    \<and> (case first_by_pk (filter (matches E device_name (req_user req)) ds) of
          None \<Rightarrow> True
        | Some dv \<Rightarrow> matches E device_name (req_user req) dv \<and> dv \<in> set ds)"
proof -
  have f: "first_by_pk (filter (matches E device_name (req_user req)) (devices st)) = None"
    by (simp only: z first_by_pk.simps)
  from post_not_found [OF c p n f] first_by_pk_selects [of "matches E device_name (req_user req)" ds]
  show ?thesis by (rule conjI)
qed

theorem no_matching_device_not_found_witness:
  "filter (matches (answering kitchen_answer) (PStr ''kitchen light'') 1) (devices home) = []
   \<and> post (answering kitchen_answer) home kitchen_request =
      (home, Returned \<lparr>status_code = 404,
         body = [(''error'', PStr (''Device '' @ [CHR 0x27] @ ''kitchen light'' @ [CHR 0x27]
                                    @ '' not found'')),
                 (''suggestion'', PStr ''Please check device name or add it first'')]\<rparr>)"
proof -
  let ?E = "answering kitchen_answer"
  have c: "truthy (dict_get (data kitchen_request) ''command'')"
    by (simp add: kitchen_request_def dict_get_def)
  have n: "map_of [(''device_name'', PStr ''kitchen light''), (''action'', PStr ''turn_on'')]
      ''device_name'' = Some (PStr ''kitchen light'')"
    by simp
  have z: "filter (matches ?E (PStr ''kitchen light'') (req_user kitchen_request)) (devices home) = []"
    by (simp add: matches_def kitchen_request_def scenario_defs char_eval)
  have z': "filter (matches ?E (PStr ''kitchen light'') 1) (devices home) = []"
    using z by (simp add: kitchen_request_def)
  from no_matching_device_not_found [OF c parse_kitchen n z, of "devices home"] z'
  show ?thesis by simp
qed

text \<open>
  Claim C9: in the 200 response of the assistant endpoint the field \<open>value\<close> is \<open>None\<close>
  whenever the parsed value is falsy. The witness is the command that sets the fan's speed
  to 0: the action is applied and logged, the status becomes \<open>0\<close>, and the response
  reports the value as \<open>None\<close>.
\<close>

theorem falsy_value_reported_as_none:
  assumes r: "post E st req = (st', Returned resp)" and ok: "status_code resp = 200"
    and p: "parse_command_with_gemini E (dict_get (data req) ''command'') = Some parsed"
    and f: "\<not> truthy (dict_get parsed ''value'')"
  shows "map_of (body resp) ''value'' = Some PNone"
proof -
  let ?cmd = "dict_get (data req) ''command''"
  let ?v = "dict_get parsed ''value''"
  from parse_has_keys [OF p] obtain dn act
    where n: "map_of parsed ''device_name'' = Some dn" and a: "map_of parsed ''action'' = Some act"
    by auto
  have c: "truthy ?cmd"
  proof (rule ccontr)
    assume "\<not> truthy ?cmd"
    then have "post E st req
        = (st, Returned \<lparr>status_code = 400, body = [(''error'', PStr ''Missing command'')]\<rparr>)"
      by (simp add: post_def Let_def)
    with r ok show False by auto
  qed
  show ?thesis
  proof (cases "first_by_pk (filter (matches E dn (req_user req)) (devices st))")
    case None
    from post_not_found [OF c p n None] r ok show ?thesis by auto
  next
    case (Some dv)
    obtain st1 dv1 res where ap: "apply_device_action E st dv act ?v = (st1, dv1, res)"
      by (cases "apply_device_action E st dv act ?v") auto
    show ?thesis
    proof (cases res)
      case (Raised err)
      with c p n a Some ap have "post E st req = (st1, Raised err)"
        by (simp add: post_def Let_def)
      with r show ?thesis by simp
    next
      case (Returned pr)
      obtain success msg where pr: "pr = (success, msg)" by (cases pr) auto
      show ?thesis
      proof (cases success)
        case False
        with c p n a Some ap Returned pr
        have "post E st req = (st1, Returned \<lparr>status_code = 400,
            body = [(''error'', opt_str msg), (''command'', ?cmd), (''device'', PStr (name dv1))]\<rparr>)"
          by (simp add: post_def Let_def)
        with r ok show ?thesis by auto
      next
        case True
        obtain st2 lres where lg: "log_action E st1 (dev_id dv1) act ?v = (st2, lres)"
          by (cases "log_action E st1 (dev_id dv1) act ?v") auto
        show ?thesis
        proof (cases lres)
          case (Raised err)
          with c p n a Some ap \<open>res = Returned pr\<close> pr True lg
          have "post E st req = (st2, Raised err)"
            by (simp add: post_def Let_def)
          with r show ?thesis by simp
        next
          case (Returned u)
          with c p n a Some ap \<open>res = Returned pr\<close> pr True lg f
          have "post E st req = (st2, Returned \<lparr>status_code = 200,
                   body = [(''message'', PStr (name dv1 @ '' updated successfully'')),
                           (''device'', PStr (name dv1)),
                           (''action'', act),
                           (''value'', PNone),
                           (''new_status'', PStr (status dv1)),
                           (''command_understood'', ?cmd)]\<rparr>)"
            by (simp add: post_def Let_def)
          with r have "body resp = [(''message'', PStr (name dv1 @ '' updated successfully'')),
                           (''device'', PStr (name dv1)),
                           (''action'', act),
                           (''value'', PNone),
                           (''new_status'', PStr (status dv1)),
                           (''command_understood'', ?cmd)]" by auto
          then show ?thesis by simp
        qed
      qed
    qed
  qed
qed

lemma fan_scenario: "post (answering fan_answer) home fan_request = (home_after_fan, Returned fan_response)"
proof -
  let ?E = "answering fan_answer"
  let ?fan = "fan_device\<lparr>status := ''0''\<rparr>"
  let ?st1 = "\<lparr>devices = [ac_device, ?fan, light_device], logs = []\<rparr>"
  have m: "filter (matches ?E (PStr ''fan'') (Suc 0)) (devices home) = [fan_device]"
    by (simp add: matches_def scenario_defs char_eval)
  have v: "validate_device_value ?E fan_device (PInt 0) = Returned (True, None)"
    by (simp add: validate_device_value_def DEVICE_LIMITS_def fan_device_def char_eval value_eval)
  have s: "str_of_int 0 = ''0''" by (simp add: char_eval value_eval)
  have sv: "save ?fan home = ?st1" by (simp add: save_def scenario_defs)
  have ap: "apply_device_action ?E home fan_device (PStr ''set_speed'') (PInt 0)
      = (?st1, ?fan, Returned (True, None))"
    by (simp add: apply_device_action_def v s sv Let_def)
  have fl: "float_of_int 0 = Returned (Finite 0)" by (simp add: value_eval)
  show ?thesis
    by (simp add: post_def Let_def fan_request_def parse_fan dict_get_def m ap del: filter.simps)
       (simp add: log_action_def create_log_def fl scenario_defs home_after_fan_def fan_response_def)
qed

theorem falsy_value_reported_as_none_witness:
  "post (answering fan_answer) home fan_request = (home_after_fan, Returned fan_response)
   \<and> status_code fan_response = 200
   \<and> \<not> truthy (dict_get [(''device_name'', PStr ''fan''), (''action'', PStr ''set_speed''),
                            (''value'', PInt 0)] ''value'')
   \<and> map_of (body fan_response) ''value'' = Some PNone"
proof -
  have ok: "status_code fan_response = 200" by (simp add: fan_response_def)
  have f: "\<not> truthy (dict_get [(''device_name'', PStr ''fan''), (''action'', PStr ''set_speed''),
                                 (''value'', PInt 0)] ''value'')"
    by (simp add: dict_get_def)
  from falsy_value_reported_as_none [OF fan_scenario ok parse_fan f] fan_scenario ok f
  show ?thesis by simp
qed

end
